theory Spec2Isabelle
  imports Main "HOL-Library.Sublist" "HOL-Library.Word"
begin

section \<open>Strings\<close>

text \<open>
  The strings of the Bluetooth service and of the configuration are lists of 8-bit
  characters. \<open>toLowerCase\<close> maps the ASCII letters \<open>A\<close>..\<open>Z\<close> to
  \<open>a\<close>..\<open>z\<close> and leaves every other character alone; it is applied to device
  names and uuids that are then searched for ASCII patterns only.
  \<open>str_includes s p\<close> is JavaScript's \<open>s.includes(p)\<close>: \<open>p\<close> occurs in \<open>s\<close>
  as a contiguous block of code units.
\<close>

definition lower_char :: "char \<Rightarrow> char" where
  "lower_char c =
     (case map_of (zip ''ABCDEFGHIJKLMNOPQRSTUVWXYZ'' ''abcdefghijklmnopqrstuvwxyz'') c of
        Some l \<Rightarrow> l
      | None \<Rightarrow> c)"

definition toLowerCase :: "string \<Rightarrow> string" where
  "toLowerCase s = map lower_char s"

fun str_includes :: "'a list \<Rightarrow> 'a list \<Rightarrow> bool" where
  "str_includes [] p = (p = [])"
| "str_includes (c # cs) p = (prefix p (c # cs) \<or> str_includes cs p)"

text \<open>
  The strings of the media list (names, types, the format of a filter) are compared
  after JavaScript's Unicode-aware \<open>toLowerCase\<close>, so they are kept as JavaScript has
  them, lists of UTF-16 code units, and \<open>toLowerCase\<close> on them is a function of the
  platform. \<open>jsString\<close> gives the code units of a literal of the source text.
\<close>

type_synonym JsString = "16 word list"

definition jsString :: "string \<Rightarrow> JsString" where
  "jsString s = map of_char s"

text \<open>Decimal rendering of a number inside a template string.\<close>

definition digit_char :: "nat \<Rightarrow> char" where
  "digit_char d = ''0123456789'' ! d"

fun string_of_nat :: "nat \<Rightarrow> string" where
  "string_of_nat n =
     (if n < 10 then [digit_char n] else string_of_nat (n div 10) @ [digit_char (n mod 10)])"

section \<open>Configuration (GoProConfig.ts)\<close>

definition BASE_URL :: string where
  "BASE_URL = ''http://10.5.5.9:8080''"

definition API_TIMEOUT :: nat where
  "API_TIMEOUT = 5000"

definition ENDPOINTS_INFO :: string where
  "ENDPOINTS_INFO = ''/gp/gpControl/info''"

definition ENDPOINTS_STATUS :: string where
  "ENDPOINTS_STATUS = ''/gp/gpControl/status''"

definition ENDPOINTS_SHUTTER :: string where
  "ENDPOINTS_SHUTTER = ''/gp/gpControl/command/shutter''"

definition ENDPOINTS_MODE :: string where
  "ENDPOINTS_MODE = ''/gp/gpControl/command/mode''"

definition ENDPOINTS_MEDIA_LIST :: string where
  "ENDPOINTS_MEDIA_LIST = ''/gp/gpMediaList''"

definition SHUTTER_COMMANDS_START :: string where
  "SHUTTER_COMMANDS_START = ''1''"

definition SHUTTER_COMMANDS_STOP :: string where
  "SHUTTER_COMMANDS_STOP = ''0''"

definition BLE_CHARACTERISTICS_WIFI_SSID :: string where
  "BLE_CHARACTERISTICS_WIFI_SSID = ''fea6-0001''"

definition BLE_CHARACTERISTICS_WIFI_PASSWORD :: string where
  "BLE_CHARACTERISTICS_WIFI_PASSWORD = ''fea6-0002''"

definition getGoProUrl :: "string \<Rightarrow> string" where
  "getGoProUrl endpoint = BASE_URL @ endpoint"

definition GOPRO_DEVICE_PATTERNS :: "string list" where
  "GOPRO_DEVICE_PATTERNS = [''gopro'', ''hero'', ''gopro hero'', ''gopro max'', ''gopro fusion'']"

section \<open>Types (GoProTypes.ts)\<close>

datatype ConnectionStatus =
  disconnected | bluetooth_pairing | bluetooth_connected | wifi_connecting | wifi_connected

datatype GoProErrorType =
  bluetooth_not_supported | bluetooth_permission_denied | device_not_found
  | connection_failed | api_timeout | network_error | invalid_response
  | camera_not_responding | wifi_connection_failed | unknown

text \<open>
  Field names are prefixed where two interfaces share one (\<open>name\<close>, \<open>type\<close>,
  \<open>rssi\<close>) or where the name is taken in HOL (\<open>id\<close>).
\<close>

record GoProError =
  err_type :: GoProErrorType
  err_message :: string
  err_details :: "string option"
  err_timestamp :: nat

text \<open>
  A value thrown by the platform and caught by a \<open>catch (error: any)\<close>: the code reads
  only \<open>error.name\<close> and \<open>error.message\<close>.
\<close>

record JsError =
  error_name :: string
  error_message :: "string option"

text \<open>\<open>AsyncResult<T>\<close>: \<open>Inl\<close> is \<open>{success: false, error}\<close>, \<open>Inr\<close> is
  \<open>{success: true, data}\<close>.\<close>

type_synonym 'a AsyncResult = "GoProError + 'a"

text \<open>The objects of react-native-ble-plx, reduced to the fields the service reads.\<close>

datatype State = Unknown | Resetting | Unsupported | Unauthorized | PoweredOff | PoweredOn

record Device =
  dev_id :: string
  dev_name :: "string option"
  dev_localName :: "string option"
  dev_rssi :: "int option"

record Service =
  service_uuid :: string

record Characteristic =
  char_uuid :: string
  char_value :: "string option"

record GoProBluetoothDevice =
  device :: Device
  gp_name :: string
  gp_rssi :: int
  isGoPro :: bool
  services :: "Service list option"
  characteristics :: "Characteristic list option"

section \<open>GoProBluetoothService\<close>

text \<open>
  The private fields of the class, and the stop timers that \<open>startScanning\<close> has
  registered with \<open>setTimeout\<close> (each by the time at which it is due).
\<close>

record GoProBluetoothService =
  isScanning :: bool
  discoveredDevices :: "string \<rightharpoonup> GoProBluetoothDevice"
  connectedDevice :: "GoProBluetoothDevice option"
  connectionStatus :: ConnectionStatus
  stopTimers :: "nat list"

text \<open>
  \<open>discoverServices\<close> returns \<open>services.services\<close>, the \<open>services\<close> property of
  the Device that \<open>discoverAllServicesAndCharacteristics()\<close> resolves to. In
  react-native-ble-plx \<open>services\<close> is a method of Device, so what is read is a function
  (\<open>ServicesMethod\<close>), which \<open>for ... of\<close> cannot iterate; \<open>ServicesArray\<close> is a
  Device that carries an array there, as the declared return type \<open>Service[]\<close> has it.
\<close>

datatype ServicesProperty = ServicesMethod | ServicesArray "Service list"

text \<open>
  What the platform answers to each call the service makes: \<open>Inl\<close> (or \<open>Some\<close> for
  a call without a result) is the error the call throws. \<open>now\<close> is \<open>Date.now()\<close>,
  \<open>base64_decode v\<close> is \<open>Buffer.from(v, 'base64').toString()\<close>,
  \<open>ble_notIterable\<close> is the TypeError that \<open>for ... of\<close> throws on a value that is
  not iterable.
\<close>

record BlePlatform =
  now :: nat
  ble_state :: "JsError + State"
  ble_startDeviceScan :: "JsError option"
  ble_connect :: "Device \<Rightarrow> JsError + Device"
  ble_discoverAllServicesAndCharacteristics :: "Device \<Rightarrow> JsError + ServicesProperty"
  ble_notIterable :: JsError
  ble_characteristics :: "Service \<Rightarrow> JsError + Characteristic list"
  ble_cancelConnection :: "Device \<Rightarrow> JsError option"
  ble_read :: "Characteristic \<Rightarrow> JsError + Characteristic"
  base64_decode :: "string \<Rightarrow> string"

definition initialService :: GoProBluetoothService where
  "initialService =
     \<lparr>isScanning = False, discoveredDevices = Map.empty, connectedDevice = None,
      connectionStatus = disconnected, stopTimers = []\<rparr>"

definition createError ::
  "nat \<Rightarrow> GoProErrorType \<Rightarrow> string \<Rightarrow> string option \<Rightarrow> GoProError" where
  "createError t ty msg det =
     \<lparr>err_type = ty, err_message = msg, err_details = det, err_timestamp = t\<rparr>"


text \<open>\<open>device.name?.toLowerCase() || ''\<close>\<close>

definition lower_or_empty :: "string option \<Rightarrow> string" where
  "lower_or_empty n = (case n of None \<Rightarrow> [] | Some v \<Rightarrow> toLowerCase v)"

definition isGoProDevice :: "Device \<Rightarrow> bool" where
  "isGoProDevice d =
     (let name = lower_or_empty (dev_name d); localName = lower_or_empty (dev_localName d)
      in list_ex (\<lambda>pattern. str_includes name pattern \<or> str_includes localName pattern)
           GOPRO_DEVICE_PATTERNS)"

definition discoverServices :: "BlePlatform \<Rightarrow> Device \<Rightarrow> ServicesProperty" where
  "discoverServices env d =
     (case ble_discoverAllServicesAndCharacteristics env d of
        Inl error \<Rightarrow> ServicesArray []
      | Inr property \<Rightarrow> property)"

definition discoverCharacteristics :: "BlePlatform \<Rightarrow> Service \<Rightarrow> Characteristic list" where
  "discoverCharacteristics env svc =
     (case ble_characteristics env svc of
        Inl error \<Rightarrow> []
      | Inr cs \<Rightarrow> cs)"

definition checkBluetoothSupport :: "BlePlatform \<Rightarrow> bool AsyncResult" where
  "checkBluetoothSupport env =
     (case ble_state env of
        Inl error \<Rightarrow>
          Inl (createError (now env) unknown ''Failed to check Bluetooth support''
                 (error_message error))
      | Inr state \<Rightarrow>
          if state = Unsupported then
            Inl (createError (now env) bluetooth_not_supported
                   ''Bluetooth is not supported on this device'' None)
          else if state = PoweredOff then
            Inl (createError (now env) bluetooth_permission_denied
                   ''Bluetooth is turned off. Please enable Bluetooth in Settings.'' None)
          else if state = Unauthorized then
            Inl (createError (now env) bluetooth_permission_denied
                   ''Bluetooth permission denied. Please allow Bluetooth access in Settings.''
                   None)
          else Inr (state = PoweredOn))"

text \<open>
  \<open>startScanning\<close> reads its first field, the scanning flag, after the \<open>await\<close> of
  the support check: \<open>s\<close> is the service as it is when the call resumes from it.
\<close>

definition startScanning ::
  "BlePlatform \<Rightarrow> GoProBluetoothService \<Rightarrow> unit AsyncResult \<times> GoProBluetoothService" where
  "startScanning env s =
     (case checkBluetoothSupport env of
        Inl e \<Rightarrow> (Inl e, s)
      | Inr supported \<Rightarrow>
          if isScanning s then (Inr (), s)
          else
            (let s1 = s\<lparr>isScanning := True, discoveredDevices := Map.empty\<rparr>
             in case ble_startDeviceScan env of
                  Some error \<Rightarrow>
                    (Inl (createError (now env) unknown ''Failed to start scanning''
                            (error_message error)),
                     s1\<lparr>isScanning := False\<rparr>)
                | None \<Rightarrow>
                    (Inr (), s1\<lparr>stopTimers := stopTimers s1 @ [now env + 10000]\<rparr>)))"

text \<open>A string operand of \<open>||\<close>: absent and empty are both falsy.\<close>

definition truthy :: "'a list option \<Rightarrow> 'a list option" where
  "truthy v = (case v of None \<Rightarrow> None | Some x \<Rightarrow> if x = [] then None else Some x)"

text \<open>The listener passed to \<open>startDeviceScan\<close>, called once per scan report.\<close>

definition scanListener ::
  "JsError option \<Rightarrow> Device option \<Rightarrow> GoProBluetoothService \<Rightarrow> GoProBluetoothService" where
  "scanListener error dev s =
     (case error of
        Some e \<Rightarrow> s
      | None \<Rightarrow>
          (case dev of
             None \<Rightarrow> s
           | Some d \<Rightarrow>
               if isGoProDevice d then
                 s\<lparr>discoveredDevices := (discoveredDevices s)(dev_id d \<mapsto>
                     \<lparr>device = d,
                      gp_name = (case truthy (dev_name d) of
                                   Some n \<Rightarrow> n
                                 | None \<Rightarrow>
                                     (case truthy (dev_localName d) of
                                        Some l \<Rightarrow> l
                                      | None \<Rightarrow> ''Unknown GoPro'')),
                      gp_rssi = (case dev_rssi d of Some r \<Rightarrow> r | None \<Rightarrow> 0),
                      isGoPro = True, services = None, characteristics = None\<rparr>)\<rparr>
               else s))"

text \<open>
  \<open>stopScanning\<close>, which each stop timer calls when it is due. Its call of
  \<open>bleManager.stopDeviceScan()\<close> acts on the platform; of the fields, only the scanning
  flag changes.
\<close>

definition stopScanning :: "GoProBluetoothService \<Rightarrow> GoProBluetoothService" where
  "stopScanning s = (if isScanning s then s\<lparr>isScanning := False\<rparr> else s)"

text \<open>The loop of \<open>connectToDevice\<close> over the services, pushing onto \<open>allCharacteristics\<close>.\<close>

fun collectCharacteristics ::
  "BlePlatform \<Rightarrow> Service list \<Rightarrow> Characteristic list \<Rightarrow> Characteristic list" where
  "collectCharacteristics env [] allCharacteristics = allCharacteristics"
| "collectCharacteristics env (svc # rest) allCharacteristics =
     collectCharacteristics env rest (allCharacteristics @ discoverCharacteristics env svc)"

text \<open>
  \<open>connectToDevice\<close> from its first \<open>await\<close> on: the transport connect, the
  enumeration, and the assignments that end the call. Between the first \<open>await\<close> and
  those assignments the call reads and writes no field, so \<open>s\<close> is the service as it is
  when the call resumes to make them, after whatever other callbacks ran meanwhile.
\<close>

definition connectSettle ::
  "BlePlatform \<Rightarrow> GoProBluetoothDevice \<Rightarrow> GoProBluetoothService
     \<Rightarrow> GoProBluetoothDevice AsyncResult \<times> GoProBluetoothService" where
  "connectSettle env goproDevice s =
     (case ble_connect env (device goproDevice) of
        Inl error \<Rightarrow>
          (Inl (createError (now env) connection_failed
                  ''Failed to connect to GoPro device'' (error_message error)),
           s\<lparr>connectionStatus := disconnected\<rparr>)
      | Inr connected \<Rightarrow>
          (case discoverServices env connected of
             ServicesMethod \<Rightarrow>
               (Inl (createError (now env) connection_failed
                       ''Failed to connect to GoPro device''
                       (error_message (ble_notIterable env))),
                s\<lparr>connectionStatus := disconnected\<rparr>)
           | ServicesArray svcs \<Rightarrow>
               (let allCharacteristics = collectCharacteristics env svcs [];
                    updatedDevice = goproDevice\<lparr>device := connected, services := Some svcs,
                                      characteristics := Some allCharacteristics\<rparr>
                in (Inr updatedDevice,
                    s\<lparr>connectedDevice := Some updatedDevice,
                       connectionStatus := bluetooth_connected\<rparr>))))"

definition connectToDevice ::
  "BlePlatform \<Rightarrow> string \<Rightarrow> GoProBluetoothService
     \<Rightarrow> GoProBluetoothDevice AsyncResult \<times> GoProBluetoothService" where
  "connectToDevice env deviceId s =
     (case discoveredDevices s deviceId of
        None \<Rightarrow>
          (Inl (createError (now env) device_not_found
                  ''Device not found in discovered devices'' None), s)
      | Some goproDevice \<Rightarrow>
          connectSettle env goproDevice (s\<lparr>connectionStatus := bluetooth_pairing\<rparr>))"

definition disconnect ::
  "BlePlatform \<Rightarrow> GoProBluetoothService \<Rightarrow> unit AsyncResult \<times> GoProBluetoothService" where
  "disconnect env s =
     (case connectedDevice s of
        None \<Rightarrow> (Inr (), s)
      | Some cd \<Rightarrow>
          (case ble_cancelConnection env (device cd) of
             Some error \<Rightarrow>
               (Inl (createError (now env) unknown ''Failed to disconnect''
                       (error_message error)), s)
           | None \<Rightarrow>
               (Inr (), s\<lparr>connectedDevice := None, connectionStatus := disconnected\<rparr>)))"

text \<open>\<open>this.connectedDevice.characteristics?.find(char => char.uuid.toLowerCase().includes(u))\<close>\<close>

definition findCharacteristic :: "GoProBluetoothDevice \<Rightarrow> string \<Rightarrow> Characteristic option" where
  "findCharacteristic cd u =
     (case characteristics cd of
        None \<Rightarrow> None
      | Some cs \<Rightarrow> find (\<lambda>c. str_includes (toLowerCase (char_uuid c)) u) cs)"

text \<open>\<open>v.value ? Buffer.from(v.value, 'base64').toString() : ''\<close>\<close>

definition decodeValue :: "BlePlatform \<Rightarrow> Characteristic \<Rightarrow> string" where
  "decodeValue env c =
     (case truthy (char_value c) of
        None \<Rightarrow> []
      | Some v \<Rightarrow> base64_decode env v)"

definition getWiFiCredentials ::
  "BlePlatform \<Rightarrow> GoProBluetoothService \<Rightarrow> (string \<times> string) AsyncResult" where
  "getWiFiCredentials env s =
     (case connectedDevice s of
        None \<Rightarrow>
          Inl (createError (now env) connection_failed ''No GoPro device connected'' None)
      | Some cd \<Rightarrow>
          (case (findCharacteristic cd BLE_CHARACTERISTICS_WIFI_SSID,
                 findCharacteristic cd BLE_CHARACTERISTICS_WIFI_PASSWORD) of
             (Some ssidCharacteristic, Some passwordCharacteristic) \<Rightarrow>
               (case ble_read env ssidCharacteristic of
                  Inl error \<Rightarrow>
                    Inl (createError (now env) connection_failed
                           ''Failed to get WiFi credentials'' (error_message error))
                | Inr ssidValue \<Rightarrow>
                    (case ble_read env passwordCharacteristic of
                       Inl error \<Rightarrow>
                         Inl (createError (now env) connection_failed
                                ''Failed to get WiFi credentials'' (error_message error))
                     | Inr passwordValue \<Rightarrow>
                         Inr (decodeValue env ssidValue, decodeValue env passwordValue)))
           | _ \<Rightarrow>
               Inl (createError (now env) connection_failed
                      ''WiFi credentials characteristics not found'' None)))"

section \<open>GoProService: the HTTP camera client\<close>

record GoProCameraInfo =
  model_name :: string
  firmware_version :: string
  serial_number :: string
  camera_type :: string

record GoProCameraStatus =
  status :: int
  battery_level :: "int option"
  recording :: "bool option"
  mode :: "string option"

record GoProMediaFile =
  file_id :: JsString
  file_name :: JsString
  file_size :: int
  file_date :: JsString
  file_type :: JsString

record GoProMediaList =
  media :: "GoProMediaFile list"
  total_count :: int

record GoProService =
  baseUrl :: string
  timeout :: nat

definition initialGoProService :: GoProService where
  "initialGoProService = \<lparr>baseUrl = BASE_URL, timeout = API_TIMEOUT\<rparr>"

text \<open>The second argument of \<open>fetch\<close>, without the abort signal.\<close>

record RequestInit =
  req_method :: "string option"
  req_body :: "string option"
  req_headers :: "string \<rightharpoonup> string"

definition noOptions :: RequestInit where
  "noOptions = \<lparr>req_method = None, req_body = None, req_headers = Map.empty\<rparr>"

text \<open>
  A response, with what \<open>response.json()\<close> gives: the parsed body, typed as the
  caller's \<open>T\<close>, or the error it throws.
\<close>

record 'a Response =
  ok :: bool
  http_status :: nat
  statusText :: string
  json :: "JsError + 'a"

text \<open>
  What the network does with a request: the promise of \<open>fetch\<close> settles after some
  milliseconds, with a response or a thrown error, or it never settles.
\<close>

datatype 'a NetBehaviour = Settles nat "JsError + 'a Response" | NeverSettles

text \<open>
  The platform of the HTTP client: \<open>clock\<close> is \<open>Date.now()\<close>, \<open>js_toLowerCase\<close>
  is \<open>String.prototype.toLowerCase\<close>.
\<close>

record 'a HttpPlatform =
  clock :: nat
  network :: "string \<Rightarrow> RequestInit \<Rightarrow> 'a NetBehaviour"
  js_toLowerCase :: "JsString \<Rightarrow> JsString"

definition abortError :: JsError where
  "abortError = \<lparr>error_name = ''AbortError'', error_message = Some ''Aborted''\<rparr>"

text \<open>
  \<open>fetch\<close> under an \<open>AbortController\<close> whose \<open>abort()\<close> is scheduled by
  \<open>setTimeout\<close> after \<open>ms\<close> milliseconds: a request that has not settled by
  then is rejected with an error named \<open>AbortError\<close>. The code clears the timer as
  soon as \<open>fetch\<close> has settled, so the timer does not cover \<open>response.json()\<close>,
  whose outcome is a field of the response.
\<close>

definition fetchWithAbort ::
  "'a HttpPlatform \<Rightarrow> nat \<Rightarrow> string \<Rightarrow> RequestInit \<Rightarrow> JsError + 'a Response" where
  "fetchWithAbort env ms url init =
     (case network env url init of
        NeverSettles \<Rightarrow> Inl abortError
      | Settles t r \<Rightarrow> if t \<le> ms then r else Inl abortError)"

text \<open>The \<open>catch\<close> block of \<open>makeRequest\<close>.\<close>

definition requestFailed :: "'a HttpPlatform \<Rightarrow> GoProService \<Rightarrow> JsError \<Rightarrow> GoProError" where
  "requestFailed env svc error =
     (if error_name error = ''AbortError'' then
        createError (clock env) api_timeout ''Request timed out''
          (Some (''Timeout after '' @ string_of_nat (timeout svc) @ ''ms''))
      else
        createError (clock env) network_error ''Network request failed'' (error_message error))"

text \<open>
  The init object \<open>makeRequest\<close> passes to \<open>fetch\<close>: the caller's options, with
  the content-type header unless the caller's headers override it.
\<close>

definition requestInit :: "RequestInit \<Rightarrow> RequestInit" where
  "requestInit options =
     options\<lparr>req_headers :=
       [''Content-Type'' \<mapsto> ''application/json''] ++ req_headers options\<rparr>"

definition makeRequest ::
  "'a HttpPlatform \<Rightarrow> GoProService \<Rightarrow> string \<Rightarrow> RequestInit \<Rightarrow> 'a AsyncResult" where
  "makeRequest env svc endpoint options =
     (let url = getGoProUrl endpoint
      in case fetchWithAbort env (timeout svc) url (requestInit options) of
           Inl error \<Rightarrow> Inl (requestFailed env svc error)
         | Inr response \<Rightarrow>
             if \<not> ok response then
               Inl (createError (clock env) invalid_response
                      (''HTTP '' @ string_of_nat (http_status response) @ '': ''
                         @ statusText response)
                      (Some (''Failed to fetch '' @ endpoint)))
             else
               (case json response of
                  Inl error \<Rightarrow> Inl (requestFailed env svc error)
                | Inr data \<Rightarrow> Inr data))"

definition getCameraInfo ::
  "GoProCameraInfo HttpPlatform \<Rightarrow> GoProService \<Rightarrow> GoProCameraInfo AsyncResult" where
  "getCameraInfo env svc = makeRequest env svc ENDPOINTS_INFO noOptions"

definition getCameraStatus ::
  "GoProCameraStatus HttpPlatform \<Rightarrow> GoProService \<Rightarrow> GoProCameraStatus AsyncResult" where
  "getCameraStatus env svc = makeRequest env svc ENDPOINTS_STATUS noOptions"

definition postOptions :: "string \<Rightarrow> RequestInit" where
  "postOptions b = \<lparr>req_method = Some ''POST'', req_body = Some b, req_headers = Map.empty\<rparr>"

definition startRecording :: "'a HttpPlatform \<Rightarrow> GoProService \<Rightarrow> unit AsyncResult" where
  "startRecording env svc =
     (case makeRequest env svc ENDPOINTS_SHUTTER (postOptions SHUTTER_COMMANDS_START) of
        Inr data \<Rightarrow> Inr ()
      | Inl e \<Rightarrow> Inl e)"

definition stopRecording :: "'a HttpPlatform \<Rightarrow> GoProService \<Rightarrow> unit AsyncResult" where
  "stopRecording env svc =
     (case makeRequest env svc ENDPOINTS_SHUTTER (postOptions SHUTTER_COMMANDS_STOP) of
        Inr data \<Rightarrow> Inr ()
      | Inl e \<Rightarrow> Inl e)"

definition setCameraMode :: "'a HttpPlatform \<Rightarrow> GoProService \<Rightarrow> string \<Rightarrow> unit AsyncResult" where
  "setCameraMode env svc m =
     (case makeRequest env svc ENDPOINTS_MODE (postOptions m) of
        Inr data \<Rightarrow> Inr ()
      | Inl e \<Rightarrow> Inl e)"

definition getMediaList ::
  "GoProMediaList HttpPlatform \<Rightarrow> GoProService \<Rightarrow> GoProMediaFile list AsyncResult" where
  "getMediaList env svc =
     (case makeRequest env svc ENDPOINTS_MEDIA_LIST noOptions of
        Inr data \<Rightarrow> Inr (media data)
      | Inl e \<Rightarrow> Inl e)"

text \<open>The optional argument \<open>filter?: {type?: 'video' | 'photo' | 'all'; format?: string}\<close>.\<close>

datatype MediaType = video | photo | all

record MediaFilter =
  filter_type :: "MediaType option"
  filter_format :: "JsString option"

definition filterByType ::
  "'a HttpPlatform \<Rightarrow> MediaFilter option \<Rightarrow> GoProMediaFile list \<Rightarrow> GoProMediaFile list" where
  "filterByType env flt files =
     (case flt of
        None \<Rightarrow> files
      | Some f \<Rightarrow>
          (case filter_type f of
             None \<Rightarrow> files
           | Some ty \<Rightarrow>
               if ty \<noteq> all then
                 filter (\<lambda>file.
                    if ty = video then js_toLowerCase env (file_type file) = jsString ''video''
                    else if ty = photo then
                      js_toLowerCase env (file_type file) = jsString ''photo''
                    else True) files
               else files))"

definition filterByFormat ::
  "'a HttpPlatform \<Rightarrow> MediaFilter option \<Rightarrow> GoProMediaFile list \<Rightarrow> GoProMediaFile list" where
  "filterByFormat env flt files =
     (case flt of
        None \<Rightarrow> files
      | Some f \<Rightarrow>
          (case truthy (filter_format f) of
             None \<Rightarrow> files
           | Some fmt \<Rightarrow>
               filter (\<lambda>file. str_includes (js_toLowerCase env (file_name file))
                                (js_toLowerCase env fmt))
                 files))"

definition getMediaFiles ::
  "GoProMediaList HttpPlatform \<Rightarrow> GoProService \<Rightarrow> MediaFilter option
     \<Rightarrow> GoProMediaFile list AsyncResult" where
  "getMediaFiles env svc flt =
     (case getMediaList env svc of
        Inl e \<Rightarrow> Inl e
      | Inr files \<Rightarrow> Inr (filterByFormat env flt (filterByType env flt files)))"

definition pingInit :: RequestInit where
  "pingInit = \<lparr>req_method = Some ''HEAD'', req_body = None, req_headers = Map.empty\<rparr>"

definition pingCamera :: "'a HttpPlatform \<Rightarrow> bool AsyncResult" where
  "pingCamera env =
     (case fetchWithAbort env 3000 (getGoProUrl ENDPOINTS_INFO) pingInit of
        Inl error \<Rightarrow>
          Inl (createError (clock env) network_error ''Cannot reach GoPro camera''
                 (error_message error))
      | Inr response \<Rightarrow> Inr (ok response))"

definition getBatteryLevel ::
  "GoProCameraStatus HttpPlatform \<Rightarrow> GoProService \<Rightarrow> int AsyncResult" where
  "getBatteryLevel env svc =
     (case getCameraStatus env svc of
        Inl e \<Rightarrow> Inl e
      | Inr data \<Rightarrow>
          (case battery_level data of
             None \<Rightarrow>
               Inl (createError (clock env) invalid_response ''Battery level not available''
                      (Some ''Camera status response missing battery information''))
           | Some batteryLevel \<Rightarrow> Inr batteryLevel))"

definition isRecording ::
  "GoProCameraStatus HttpPlatform \<Rightarrow> GoProService \<Rightarrow> bool AsyncResult" where
  "isRecording env svc =
     (case getCameraStatus env svc of
        Inl e \<Rightarrow> Inl e
      | Inr data \<Rightarrow> Inr (case recording data of None \<Rightarrow> False | Some r \<Rightarrow> r))"

definition getCurrentMode ::
  "GoProCameraStatus HttpPlatform \<Rightarrow> GoProService \<Rightarrow> string AsyncResult" where
  "getCurrentMode env svc =
     (case getCameraStatus env svc of
        Inl e \<Rightarrow> Inl e
      | Inr data \<Rightarrow>
          (case truthy (mode data) of
             None \<Rightarrow>
               Inl (createError (clock env) invalid_response ''Camera mode not available''
                      (Some ''Camera status response missing mode information''))
           | Some m \<Rightarrow> Inr m))"

definition updateBaseUrl :: "string \<Rightarrow> GoProService \<Rightarrow> GoProService" where
  "updateBaseUrl newUrl svc = svc\<lparr>baseUrl := newUrl\<rparr>"

definition updateTimeout :: "nat \<Rightarrow> GoProService \<Rightarrow> GoProService" where
  "updateTimeout newTimeout svc = svc\<lparr>timeout := newTimeout\<rparr>"

section \<open>Notions used in the statements\<close>

text \<open>
  A characteristic is in the connected device's characteristic set under an identifier
  when some enumerated characteristic's lower-cased uuid contains it.
\<close>

definition hasCharacteristic :: "GoProBluetoothDevice \<Rightarrow> string \<Rightarrow> bool" where
  "hasCharacteristic cd u =
     (case characteristics cd of
        None \<Rightarrow> False
      | Some cs \<Rightarrow> list_ex (\<lambda>c. str_includes (toLowerCase (char_uuid c)) u) cs)"

text \<open>A result is a failure of the given error kind.\<close>

definition failsWith :: "'a AsyncResult \<Rightarrow> GoProErrorType \<Rightarrow> bool" where
  "failsWith r k = (case r of Inl e \<Rightarrow> err_type e = k | Inr v \<Rightarrow> False)"

text \<open>
  The network takes longer than \<open>ms\<close> milliseconds over a request, or never
  answers it.
\<close>

definition exceeds :: "'a NetBehaviour \<Rightarrow> nat \<Rightarrow> bool" where
  "exceeds b ms = (case b of NeverSettles \<Rightarrow> True | Settles t r \<Rightarrow> ms < t)"

text \<open>The request \<open>makeRequest\<close> sends for an endpoint outlasts the configured timeout.\<close>

definition requestExceeds ::
  "'a HttpPlatform \<Rightarrow> GoProService \<Rightarrow> string \<Rightarrow> RequestInit \<Rightarrow> bool" where
  "requestExceeds env svc endpoint options =
     exceeds (network env (getGoProUrl endpoint) (requestInit options)) (timeout svc)"

section \<open>Example configurations\<close>

text \<open>
  A camera named "GoPro Hero11" with identifier \<open>D1\<close>; a platform on which every
  call of the library returns; the service after a scan that found the camera; and a
  service that holds a Connected Device with both WiFi characteristics.
\<close>

definition demoDevice :: Device where
  "demoDevice =
     \<lparr>dev_id = ''D1'', dev_name = Some ''GoPro Hero11'', dev_localName = None,
      dev_rssi = Some (- 40)\<rparr>"

definition demoGoPro :: GoProBluetoothDevice where
  "demoGoPro =
     \<lparr>device = demoDevice, gp_name = ''GoPro Hero11'', gp_rssi = - 40, isGoPro = True,
      services = None, characteristics = None\<rparr>"

definition ssidCharacteristic :: Characteristic where
  "ssidCharacteristic = \<lparr>char_uuid = ''FEA6-0001'', char_value = Some ''R1AxMjM0NQ==''\<rparr>"

definition passwordCharacteristic :: Characteristic where
  "passwordCharacteristic = \<lparr>char_uuid = ''fea6-0002'', char_value = Some ''cGFzczEyMzQ=''\<rparr>"

definition transportError :: JsError where
  "transportError = \<lparr>error_name = ''BleError'', error_message = Some ''Operation was rejected''\<rparr>"

definition demoPlatform :: BlePlatform where
  "demoPlatform =
     \<lparr>now = 1000,
      ble_state = Inr PoweredOn,
      ble_startDeviceScan = None,
      ble_connect = (\<lambda>d. Inr d),
      ble_discoverAllServicesAndCharacteristics = (\<lambda>d. Inr ServicesMethod),
      ble_notIterable =
        \<lparr>error_name = ''TypeError'', error_message = Some ''services is not iterable''\<rparr>,
      ble_characteristics = (\<lambda>svc. Inr [ssidCharacteristic, passwordCharacteristic]),
      ble_cancelConnection = (\<lambda>d. None),
      ble_read = (\<lambda>c. Inr c),
      base64_decode = (\<lambda>v. if v = ''R1AxMjM0NQ=='' then ''GP12345''
                          else if v = ''cGFzczEyMzQ='' then ''pass1234'' else [])\<rparr>"

definition scannedService :: GoProBluetoothService where
  "scannedService = initialService\<lparr>discoveredDevices := [''D1'' \<mapsto> demoGoPro]\<rparr>"

definition connectedGoPro :: GoProBluetoothDevice where
  "connectedGoPro =
     demoGoPro\<lparr>services := Some [\<lparr>service_uuid = ''fea6''\<rparr>],
       characteristics := Some [ssidCharacteristic, passwordCharacteristic]\<rparr>"

definition connectedService :: GoProBluetoothService where
  "connectedService =
     scannedService\<lparr>connectedDevice := Some connectedGoPro,
       connectionStatus := bluetooth_connected\<rparr>"

text \<open>
  A \<open>toLowerCase\<close> that is JavaScript's on the strings whose code units are all below
  256 (ASCII and Latin-1): the capital letters move up by 32.
\<close>

definition latin1_lower_unit :: "16 word \<Rightarrow> 16 word" where
  "latin1_lower_unit u =
     (if (65 \<le> u \<and> u \<le> 90) \<or> (192 \<le> u \<and> u \<le> 222 \<and> u \<noteq> 215) then u + 32 else u)"

definition latin1LowerCase :: "JsString \<Rightarrow> JsString" where
  "latin1LowerCase s = map latin1_lower_unit s"

text \<open>
  A camera that answers every request with HTTP 200 and the given body after 120 ms, a
  camera that never answers, a media list of two videos and three photos, and a list of
  two photos whose names are \<open>CAFE.JPG\<close> and \<open>cafe.jpg\<close> with an acute accent
  on the E and on the e (code units 201 and 233).
\<close>

definition respondingWith :: "'a \<Rightarrow> 'a HttpPlatform" where
  "respondingWith payload =
     \<lparr>clock = 2000,
      network = (\<lambda>url init. Settles 120
                   (Inr \<lparr>ok = True, http_status = 200, statusText = ''OK'',
                         json = Inr payload\<rparr>)),
      js_toLowerCase = latin1LowerCase\<rparr>"

definition silentCamera :: "'a HttpPlatform" where
  "silentCamera =
     \<lparr>clock = 2000, network = (\<lambda>url init. NeverSettles), js_toLowerCase = latin1LowerCase\<rparr>"

definition mediaA :: GoProMediaFile where
  "mediaA = \<lparr>file_id = jsString ''1'', file_name = jsString ''A.360'', file_size = 4096,
              file_date = jsString ''2024-01-01'', file_type = jsString ''video''\<rparr>"

definition mediaP1 :: GoProMediaFile where
  "mediaP1 = \<lparr>file_id = jsString ''2'', file_name = jsString ''P1.JPG'', file_size = 512,
               file_date = jsString ''2024-01-02'', file_type = jsString ''photo''\<rparr>"

definition mediaB :: GoProMediaFile where
  "mediaB = \<lparr>file_id = jsString ''3'', file_name = jsString ''B.MP4'', file_size = 8192,
              file_date = jsString ''2024-01-03'', file_type = jsString ''Video''\<rparr>"

definition mediaP2 :: GoProMediaFile where
  "mediaP2 = \<lparr>file_id = jsString ''4'', file_name = jsString ''P2.jpg'', file_size = 640,
               file_date = jsString ''2024-01-04'', file_type = jsString ''PHOTO''\<rparr>"

definition mediaC :: GoProMediaFile where
  "mediaC = \<lparr>file_id = jsString ''5'', file_name = jsString ''C.360'', file_size = 1024,
              file_date = jsString ''2024-01-05'', file_type = jsString ''photo''\<rparr>"

definition demoMediaList :: GoProMediaList where
  "demoMediaList = \<lparr>media = [mediaA, mediaP1, mediaB, mediaP2, mediaC], total_count = 5\<rparr>"

definition mediaCafeUpper :: GoProMediaFile where
  "mediaCafeUpper =
     \<lparr>file_id = jsString ''6'', file_name = jsString ''CAF'' @ [201] @ jsString ''.JPG'',
      file_size = 700, file_date = jsString ''2024-01-06'', file_type = jsString ''photo''\<rparr>"

definition mediaCafeLower :: GoProMediaFile where
  "mediaCafeLower =
     \<lparr>file_id = jsString ''7'', file_name = jsString ''caf'' @ [233] @ jsString ''.jpg'',
      file_size = 701, file_date = jsString ''2024-01-07'', file_type = jsString ''photo''\<rparr>"

definition accentMediaList :: GoProMediaList where
  "accentMediaList = \<lparr>media = [mediaCafeUpper, mediaCafeLower], total_count = 2\<rparr>"

definition demoStatus :: GoProCameraStatus where
  "demoStatus = \<lparr>status = 0, battery_level = Some 87, recording = Some True, mode = Some ''0''\<rparr>"

lemmas media_defs =
  mediaA_def mediaP1_def mediaB_def mediaP2_def mediaC_def demoMediaList_def
  mediaCafeUpper_def mediaCafeLower_def accentMediaList_def

lemmas fixture_defs =
  demoDevice_def demoGoPro_def ssidCharacteristic_def passwordCharacteristic_def
  transportError_def demoPlatform_def scannedService_def connectedGoPro_def
  connectedService_def initialService_def

section \<open>Properties of the Bluetooth service\<close>

lemma str_includes_sublist: "str_includes s p \<longleftrightarrow> sublist p s"
  by (induction s) (simp_all add: sublist_Cons_right)

lemma patterns_all: "list_all (\<lambda>p. toLowerCase p = p \<and> p \<noteq> []) GOPRO_DEVICE_PATTERNS"
  by code_simp

lemma patterns_lower: "p \<in> set GOPRO_DEVICE_PATTERNS \<Longrightarrow> toLowerCase p = p"
  using patterns_all by (simp add: list_all_iff)

lemma patterns_nonempty: "p \<in> set GOPRO_DEVICE_PATTERNS \<Longrightarrow> p \<noteq> []"
  using patterns_all by (simp add: list_all_iff)

text \<open>
  C9: \<open>isGoProDevice\<close> is true exactly when the device's name or its local name
  contains one of the known patterns, both sides lower-cased; in particular it is false
  when both names are absent.
\<close>

theorem isGoProDevice_iff:
  "isGoProDevice d \<longleftrightarrow>
     (\<exists>p \<in> set GOPRO_DEVICE_PATTERNS.
        (\<exists>n. dev_name d = Some n \<and> sublist (toLowerCase p) (toLowerCase n)) \<or>
        (\<exists>l. dev_localName d = Some l \<and> sublist (toLowerCase p) (toLowerCase l)))"
  unfolding isGoProDevice_def Let_def list_ex_iff str_includes_sublist lower_or_empty_def
  by (auto simp: patterns_lower patterns_nonempty split: option.splits)

theorem isGoProDevice_iff_witness:
  "isGoProDevice demoDevice
   \<and> \<not> isGoProDevice
         \<lparr>dev_id = ''D3'', dev_name = None, dev_localName = None, dev_rssi = None\<rparr>"
proof -
  have "''hero'' \<in> set GOPRO_DEVICE_PATTERNS"
    by (simp add: GOPRO_DEVICE_PATTERNS_def)
  moreover have "str_includes (toLowerCase ''GoPro Hero11'') (toLowerCase ''hero'')"
    by code_simp
  ultimately have "isGoProDevice demoDevice"
    using isGoProDevice_iff [of demoDevice]
    by (auto simp: demoDevice_def str_includes_sublist)
  moreover have
    "\<not> isGoProDevice
         \<lparr>dev_id = ''D3'', dev_name = None, dev_localName = None, dev_rssi = None\<rparr>"
    using isGoProDevice_iff
      [of "\<lparr>dev_id = ''D3'', dev_name = None, dev_localName = None, dev_rssi = None\<rparr>"]
    by simp
  ultimately show ?thesis by simp
qed




text \<open>
  C10: \<open>disconnect\<close> with no Connected Device returns success and the service as it
  was: the status keeps its value and the discovered-device directory is untouched.
\<close>

theorem disconnect_without_device:
  "connectedDevice s = None \<Longrightarrow> disconnect env s = (Inr (), s)"
  by (simp add: disconnect_def)

theorem disconnect_without_device_witness:
  "connectedDevice (scannedService\<lparr>connectionStatus := bluetooth_pairing\<rparr>) = None
   \<and> disconnect demoPlatform (scannedService\<lparr>connectionStatus := bluetooth_pairing\<rparr>)
       = (Inr (), scannedService\<lparr>connectionStatus := bluetooth_pairing\<rparr>)
   \<and> connectionStatus
         (snd (disconnect demoPlatform (scannedService\<lparr>connectionStatus := bluetooth_pairing\<rparr>)))
       = bluetooth_pairing"
proof -
  have none: "connectedDevice (scannedService\<lparr>connectionStatus := bluetooth_pairing\<rparr>) = None"
    by (simp add: scannedService_def initialService_def)
  show ?thesis
    using none disconnect_without_device [OF none, of demoPlatform] by simp
qed

text \<open>
  With the Device of react-native-ble-plx, whose \<open>services\<close> is a method, a connect
  whose enumeration resolves throws in the loop over the services and fails with
  \<open>connection_failed\<close>.
\<close>

lemma connectToDevice_services_method:
  "discoveredDevices s deviceId = Some g \<Longrightarrow> ble_connect env (device g) = Inr cd \<Longrightarrow>
   ble_discoverAllServicesAndCharacteristics env cd = Inr ServicesMethod \<Longrightarrow>
   failsWith (fst (connectToDevice env deviceId s)) connection_failed
   \<and> snd (connectToDevice env deviceId s) = s\<lparr>connectionStatus := disconnected\<rparr>"
  by (simp add: connectToDevice_def connectSettle_def discoverServices_def failsWith_def
        createError_def)

text \<open>
  C1, as stated, fails: when the transport connect succeeds and the enumeration of the
  services throws, \<open>connectToDevice\<close> does not fail with \<open>connection_failed\<close>; it
  succeeds with empty service and characteristic lists and status \<open>bluetooth_connected\<close>.
\<close>

theorem connect_enumeration_failure_counterexample:
  "ble_discoverAllServicesAndCharacteristics
     (demoPlatform\<lparr>ble_discoverAllServicesAndCharacteristics := (\<lambda>d. Inl transportError)\<rparr>)
     demoDevice = Inl transportError
   \<and> connectToDevice
       (demoPlatform\<lparr>ble_discoverAllServicesAndCharacteristics := (\<lambda>d. Inl transportError)\<rparr>)
       ''D1'' scannedService
     = (Inr (demoGoPro\<lparr>services := Some [], characteristics := Some []\<rparr>),
        scannedService\<lparr>connectedDevice :=
            Some (demoGoPro\<lparr>services := Some [], characteristics := Some []\<rparr>),
          connectionStatus := bluetooth_connected\<rparr>)"
  by (simp add: connectToDevice_def connectSettle_def discoverServices_def Let_def
        fixture_defs)

text \<open>
  C1 (amended): \<open>connectToDevice\<close> fails with \<open>device_not_found\<close>, changing nothing,
  when the identifier is not in the discovered-device directory. Otherwise it performs the
  transport connect; if that throws, it fails with \<open>connection_failed\<close>, carrying the
  transport error's message, and the status is \<open>disconnected\<close>. If the connect succeeds
  and the enumeration of the services throws, the error is swallowed: the call succeeds
  with empty service and characteristic lists. Every success stores the Connected Device
  it returns and sets the status to \<open>bluetooth_connected\<close>; every failure for an
  identifier that is in the directory is of kind \<open>connection_failed\<close>.
\<close>

theorem connectToDevice_outcomes:
  "(discoveredDevices s deviceId = None \<longrightarrow>
      failsWith (fst (connectToDevice env deviceId s)) device_not_found
      \<and> snd (connectToDevice env deviceId s) = s)
   \<and> (\<forall>g e. discoveredDevices s deviceId = Some g \<and> ble_connect env (device g) = Inl e \<longrightarrow>
        (\<exists>err. fst (connectToDevice env deviceId s) = Inl err
           \<and> err_type err = connection_failed \<and> err_details err = error_message e)
        \<and> snd (connectToDevice env deviceId s) = s\<lparr>connectionStatus := disconnected\<rparr>)
   \<and> (\<forall>g cd e. discoveredDevices s deviceId = Some g \<and> ble_connect env (device g) = Inr cd
          \<and> ble_discoverAllServicesAndCharacteristics env cd = Inl e \<longrightarrow>
        connectToDevice env deviceId s
          = (Inr (g\<lparr>device := cd, services := Some [], characteristics := Some []\<rparr>),
             s\<lparr>connectedDevice :=
                 Some (g\<lparr>device := cd, services := Some [], characteristics := Some []\<rparr>),
               connectionStatus := bluetooth_connected\<rparr>))
   \<and> (\<forall>u. fst (connectToDevice env deviceId s) = Inr u \<longrightarrow>
        connectedDevice (snd (connectToDevice env deviceId s)) = Some u
        \<and> connectionStatus (snd (connectToDevice env deviceId s)) = bluetooth_connected)
   \<and> (\<forall>g err. discoveredDevices s deviceId = Some g
          \<and> fst (connectToDevice env deviceId s) = Inl err \<longrightarrow>
        err_type err = connection_failed)"
  by (auto simp: connectToDevice_def connectSettle_def discoverServices_def failsWith_def
        createError_def Let_def split: sum.splits ServicesProperty.splits option.splits)

theorem connectToDevice_outcomes_witness:
  "failsWith (fst (connectToDevice demoPlatform ''D2'' scannedService)) device_not_found
   \<and> failsWith (fst (connectToDevice (demoPlatform\<lparr>ble_connect := (\<lambda>d. Inl transportError)\<rparr>)
                      ''D1'' scannedService)) connection_failed
   \<and> connectToDevice
       (demoPlatform\<lparr>ble_discoverAllServicesAndCharacteristics := (\<lambda>d. Inl transportError)\<rparr>)
       ''D1'' scannedService
     = (Inr (demoGoPro\<lparr>services := Some [], characteristics := Some []\<rparr>),
        scannedService\<lparr>connectedDevice :=
            Some (demoGoPro\<lparr>services := Some [], characteristics := Some []\<rparr>),
          connectionStatus := bluetooth_connected\<rparr>)"
proof -
  have absent: "discoveredDevices scannedService ''D2'' = None"
    by (simp add: scannedService_def initialService_def)
  have present: "discoveredDevices scannedService ''D1'' = Some demoGoPro"
    by (simp add: scannedService_def initialService_def)
  have refused:
    "ble_connect (demoPlatform\<lparr>ble_connect := (\<lambda>d. Inl transportError)\<rparr>) (device demoGoPro)
       = Inl transportError"
    by simp
  have accepted:
    "ble_connect
       (demoPlatform\<lparr>ble_discoverAllServicesAndCharacteristics := (\<lambda>d. Inl transportError)\<rparr>)
       (device demoGoPro) = Inr demoDevice"
    by (simp add: demoPlatform_def demoGoPro_def)
  have thrown:
    "ble_discoverAllServicesAndCharacteristics
       (demoPlatform\<lparr>ble_discoverAllServicesAndCharacteristics := (\<lambda>d. Inl transportError)\<rparr>)
       demoDevice = Inl transportError"
    by simp
  have same: "demoGoPro\<lparr>device := demoDevice\<rparr> = demoGoPro"
    by (simp add: demoGoPro_def)
  have "failsWith (fst (connectToDevice demoPlatform ''D2'' scannedService)) device_not_found"
    using connectToDevice_outcomes [of scannedService "''D2''" demoPlatform] absent by simp
  moreover have
    "failsWith (fst (connectToDevice (demoPlatform\<lparr>ble_connect := (\<lambda>d. Inl transportError)\<rparr>)
                       ''D1'' scannedService)) connection_failed"
    using connectToDevice_outcomes [of scannedService "''D1''"
        "demoPlatform\<lparr>ble_connect := (\<lambda>d. Inl transportError)\<rparr>"] present refused
    by (auto simp: failsWith_def)
  moreover have
    "connectToDevice
       (demoPlatform\<lparr>ble_discoverAllServicesAndCharacteristics := (\<lambda>d. Inl transportError)\<rparr>)
       ''D1'' scannedService
     = (Inr (demoGoPro\<lparr>services := Some [], characteristics := Some []\<rparr>),
        scannedService\<lparr>connectedDevice :=
            Some (demoGoPro\<lparr>services := Some [], characteristics := Some []\<rparr>),
          connectionStatus := bluetooth_connected\<rparr>)"
    using connectToDevice_outcomes [of scannedService "''D1''"
        "demoPlatform\<lparr>ble_discoverAllServicesAndCharacteristics := (\<lambda>d. Inl transportError)\<rparr>"]
      present accepted thrown same
    by auto
  ultimately show ?thesis by simp
qed

text \<open>
  C3, as stated, fails: with a Connected Device whose \<open>cancelConnection\<close> throws,
  \<open>disconnect\<close> returns a failed result of kind \<open>unknown\<close> and leaves the service
  as it was, the Connected Device included.
\<close>

theorem disconnect_transport_error_counterexample:
  "connectedDevice connectedService = Some connectedGoPro
   \<and> disconnect (demoPlatform\<lparr>ble_cancelConnection := (\<lambda>d. Some transportError)\<rparr>)
        connectedService
     = (Inl (createError 1000 unknown ''Failed to disconnect'' (Some ''Operation was rejected'')),
        connectedService)"
  by (simp add: disconnect_def connectedService_def demoPlatform_def transportError_def)

text \<open>
  C3 (amended): with a Connected Device whose transport-level teardown succeeds,
  \<open>disconnect\<close> returns success, clears the Connected Device and sets the status to
  \<open>disconnected\<close>; when the teardown throws, it returns a failed result of kind
  \<open>unknown\<close> and changes nothing; with no Connected Device it returns success.
\<close>

theorem disconnect_outcomes:
  "(\<forall>cd. connectedDevice s = Some cd \<and> ble_cancelConnection env (device cd) = None \<longrightarrow>
      disconnect env s = (Inr (), s\<lparr>connectedDevice := None, connectionStatus := disconnected\<rparr>))
   \<and> (\<forall>cd e. connectedDevice s = Some cd \<and> ble_cancelConnection env (device cd) = Some e \<longrightarrow>
        failsWith (fst (disconnect env s)) unknown \<and> snd (disconnect env s) = s)
   \<and> (connectedDevice s = None \<longrightarrow> fst (disconnect env s) = Inr ())"
  by (simp add: disconnect_def failsWith_def createError_def)

theorem disconnect_outcomes_witness:
  "disconnect demoPlatform connectedService = (Inr (), scannedService)
   \<and> failsWith (fst (disconnect (demoPlatform\<lparr>ble_cancelConnection := (\<lambda>d. Some transportError)\<rparr>)
                      connectedService)) unknown
   \<and> fst (disconnect demoPlatform scannedService) = Inr ()"
proof -
  have connected: "connectedDevice connectedService = Some connectedGoPro"
    by (simp add: connectedService_def)
  have torn: "ble_cancelConnection demoPlatform (device connectedGoPro) = None"
    by (simp add: demoPlatform_def)
  have rejected:
    "ble_cancelConnection (demoPlatform\<lparr>ble_cancelConnection := (\<lambda>d. Some transportError)\<rparr>)
       (device connectedGoPro) = Some transportError"
    by simp
  have idle: "connectedDevice scannedService = None"
    by (simp add: scannedService_def initialService_def)
  have cleared:
    "connectedService\<lparr>connectedDevice := None, connectionStatus := disconnected\<rparr> = scannedService"
    by (simp add: connectedService_def scannedService_def initialService_def)
  have "disconnect demoPlatform connectedService = (Inr (), scannedService)"
    using disconnect_outcomes [of connectedService demoPlatform] connected torn cleared by simp
  moreover have
    "failsWith (fst (disconnect (demoPlatform\<lparr>ble_cancelConnection := (\<lambda>d. Some transportError)\<rparr>)
                       connectedService)) unknown"
    using disconnect_outcomes [of connectedService
        "demoPlatform\<lparr>ble_cancelConnection := (\<lambda>d. Some transportError)\<rparr>"] connected rejected
    by simp
  moreover have "fst (disconnect demoPlatform scannedService) = Inr ()"
    using disconnect_outcomes [of scannedService demoPlatform] idle by simp
  ultimately show ?thesis by simp
qed

text \<open>
  C6, as stated, fails: the Bluetooth support check comes before the test of the scanning
  flag, so a call made while a scan is running and the adapter is powered off returns a
  failed result, not success.
\<close>

theorem startScanning_powered_off_counterexample:
  "isScanning (scannedService\<lparr>isScanning := True\<rparr>)
   \<and> startScanning (demoPlatform\<lparr>ble_state := Inr PoweredOff\<rparr>)
        (scannedService\<lparr>isScanning := True\<rparr>)
     = (Inl (createError 1000 bluetooth_permission_denied
               ''Bluetooth is turned off. Please enable Bluetooth in Settings.'' None),
        scannedService\<lparr>isScanning := True\<rparr>)"
  by (simp add: startScanning_def checkBluetoothSupport_def demoPlatform_def)

text \<open>
  C6 (amended): \<open>startScanning\<close> first awaits the Bluetooth support check; if the check
  fails, the call returns the check's failure and changes nothing, whether or not a scan
  is running. If a scan is running when the check has returned, the call changes nothing
  (the discovered-device set is not cleared and no stop timer is registered) and, the
  check having passed, returns success. Only when no scan is running and the check has
  passed is the discovered-device set cleared.
\<close>

theorem startScanning_while_scanning:
  "(isScanning s \<longrightarrow>
      snd (startScanning env s) = s
      \<and> (\<forall>supported. checkBluetoothSupport env = Inr supported \<longrightarrow>
            fst (startScanning env s) = Inr ()))
   \<and> (\<forall>e. checkBluetoothSupport env = Inl e \<longrightarrow> startScanning env s = (Inl e, s))
   \<and> (\<not> isScanning s \<longrightarrow>
        (\<forall>supported. checkBluetoothSupport env = Inr supported \<longrightarrow>
           discoveredDevices (snd (startScanning env s)) = Map.empty))
   \<and> (discoveredDevices (snd (startScanning env s)) \<noteq> discoveredDevices s \<longrightarrow>
        \<not> isScanning s \<and> (\<exists>supported. checkBluetoothSupport env = Inr supported))"
  by (auto simp: startScanning_def Let_def split: sum.splits option.splits)

theorem startScanning_while_scanning_witness:
  "startScanning demoPlatform (scannedService\<lparr>isScanning := True\<rparr>)
     = (Inr (), scannedService\<lparr>isScanning := True\<rparr>)
   \<and> discoveredDevices (scannedService\<lparr>isScanning := True\<rparr>) ''D1'' = Some demoGoPro
   \<and> discoveredDevices (snd (startScanning demoPlatform scannedService)) = Map.empty
   \<and> startScanning (demoPlatform\<lparr>ble_state := Inr PoweredOff\<rparr>) scannedService
       = (Inl (createError 1000 bluetooth_permission_denied
                 ''Bluetooth is turned off. Please enable Bluetooth in Settings.'' None),
          scannedService)"
proof -
  have running: "isScanning (scannedService\<lparr>isScanning := True\<rparr>)"
    by simp
  have idle: "\<not> isScanning scannedService"
    by (simp add: scannedService_def initialService_def)
  have supported: "checkBluetoothSupport demoPlatform = Inr True"
    by (simp add: checkBluetoothSupport_def demoPlatform_def)
  have off:
    "checkBluetoothSupport (demoPlatform\<lparr>ble_state := Inr PoweredOff\<rparr>)
       = Inl (createError 1000 bluetooth_permission_denied
                ''Bluetooth is turned off. Please enable Bluetooth in Settings.'' None)"
    by (simp add: checkBluetoothSupport_def demoPlatform_def)
  have "startScanning demoPlatform (scannedService\<lparr>isScanning := True\<rparr>)
          = (Inr (), scannedService\<lparr>isScanning := True\<rparr>)"
    using startScanning_while_scanning [of "scannedService\<lparr>isScanning := True\<rparr>" demoPlatform]
      running supported
    by (auto simp: prod_eq_iff)
  moreover have "discoveredDevices (scannedService\<lparr>isScanning := True\<rparr>) ''D1'' = Some demoGoPro"
    by (simp add: scannedService_def)
  moreover have "discoveredDevices (snd (startScanning demoPlatform scannedService)) = Map.empty"
    using startScanning_while_scanning [of scannedService demoPlatform] idle supported
    by auto
  moreover have
    "startScanning (demoPlatform\<lparr>ble_state := Inr PoweredOff\<rparr>) scannedService
       = (Inl (createError 1000 bluetooth_permission_denied
                 ''Bluetooth is turned off. Please enable Bluetooth in Settings.'' None),
          scannedService)"
    using startScanning_while_scanning [of scannedService
        "demoPlatform\<lparr>ble_state := Inr PoweredOff\<rparr>"] off
    by auto
  ultimately show ?thesis by simp
qed

lemma findCharacteristic_None:
  "findCharacteristic cd u = None \<longleftrightarrow> \<not> hasCharacteristic cd u"
  by (auto simp: findCharacteristic_def hasCharacteristic_def find_None_iff list_ex_iff
        split: option.splits)

lemma demo_characteristics:
  "findCharacteristic connectedGoPro BLE_CHARACTERISTICS_WIFI_SSID = Some ssidCharacteristic"
  "findCharacteristic connectedGoPro BLE_CHARACTERISTICS_WIFI_PASSWORD
     = Some passwordCharacteristic"
  by code_simp+

text \<open>
  C7, as stated, fails: with a Connected Device that has both characteristics,
  \<open>getWiFiCredentials\<close> does not return the pair when a read throws; it fails with
  \<open>connection_failed\<close>.
\<close>

theorem getWiFiCredentials_read_failure_counterexample:
  "connectedDevice connectedService = Some connectedGoPro
   \<and> hasCharacteristic connectedGoPro BLE_CHARACTERISTICS_WIFI_SSID
   \<and> hasCharacteristic connectedGoPro BLE_CHARACTERISTICS_WIFI_PASSWORD
   \<and> getWiFiCredentials (demoPlatform\<lparr>ble_read := (\<lambda>c. Inl transportError)\<rparr>) connectedService
       = Inl (createError 1000 connection_failed ''Failed to get WiFi credentials''
                (Some ''Operation was rejected''))"
proof -
  have connected: "connectedDevice connectedService = Some connectedGoPro"
    by (simp add: connectedService_def)
  have has:
    "hasCharacteristic connectedGoPro BLE_CHARACTERISTICS_WIFI_SSID"
    "hasCharacteristic connectedGoPro BLE_CHARACTERISTICS_WIFI_PASSWORD"
    by code_simp+
  have "getWiFiCredentials (demoPlatform\<lparr>ble_read := (\<lambda>c. Inl transportError)\<rparr>) connectedService
          = Inl (createError 1000 connection_failed ''Failed to get WiFi credentials''
                   (Some ''Operation was rejected''))"
    by (simp add: getWiFiCredentials_def connected demo_characteristics demoPlatform_def
          transportError_def)
  with connected has show ?thesis by simp
qed

text \<open>
  C7 (amended): \<open>getWiFiCredentials\<close> fails with \<open>connection_failed\<close> when there is no
  Connected Device, and when the SSID or the password characteristic is missing from the
  Connected Device's characteristics; otherwise it reads the SSID characteristic and then
  the password characteristic, fails with \<open>connection_failed\<close>, carrying the transport
  error's message, when a read throws, and, both reads returning, gives the pair of the
  decoded values. Every failure it reports is of kind \<open>connection_failed\<close>.
\<close>

theorem getWiFiCredentials_outcomes:
  "(connectedDevice s = None \<longrightarrow> failsWith (getWiFiCredentials env s) connection_failed)
   \<and> (\<forall>cd. connectedDevice s = Some cd
          \<and> (\<not> hasCharacteristic cd BLE_CHARACTERISTICS_WIFI_SSID
               \<or> \<not> hasCharacteristic cd BLE_CHARACTERISTICS_WIFI_PASSWORD) \<longrightarrow>
        failsWith (getWiFiCredentials env s) connection_failed)
   \<and> (\<forall>cd sc pc e. connectedDevice s = Some cd
          \<and> findCharacteristic cd BLE_CHARACTERISTICS_WIFI_SSID = Some sc
          \<and> findCharacteristic cd BLE_CHARACTERISTICS_WIFI_PASSWORD = Some pc
          \<and> ble_read env sc = Inl e \<longrightarrow>
        (\<exists>err. getWiFiCredentials env s = Inl err
           \<and> err_type err = connection_failed \<and> err_details err = error_message e))
   \<and> (\<forall>cd sc pc sv e. connectedDevice s = Some cd
          \<and> findCharacteristic cd BLE_CHARACTERISTICS_WIFI_SSID = Some sc
          \<and> findCharacteristic cd BLE_CHARACTERISTICS_WIFI_PASSWORD = Some pc
          \<and> ble_read env sc = Inr sv \<and> ble_read env pc = Inl e \<longrightarrow>
        (\<exists>err. getWiFiCredentials env s = Inl err
           \<and> err_type err = connection_failed \<and> err_details err = error_message e))
   \<and> (\<forall>cd sc pc sv pv. connectedDevice s = Some cd
          \<and> findCharacteristic cd BLE_CHARACTERISTICS_WIFI_SSID = Some sc
          \<and> findCharacteristic cd BLE_CHARACTERISTICS_WIFI_PASSWORD = Some pc
          \<and> ble_read env sc = Inr sv \<and> ble_read env pc = Inr pv \<longrightarrow>
        getWiFiCredentials env s = Inr (decodeValue env sv, decodeValue env pv))
   \<and> (\<forall>e. getWiFiCredentials env s = Inl e \<longrightarrow> err_type e = connection_failed)"
  by (auto simp: getWiFiCredentials_def failsWith_def createError_def
        findCharacteristic_None [symmetric] split: option.splits sum.splits)

theorem getWiFiCredentials_outcomes_witness:
  "failsWith (getWiFiCredentials demoPlatform scannedService) connection_failed
   \<and> failsWith (getWiFiCredentials demoPlatform
                  (scannedService\<lparr>connectedDevice := Some demoGoPro\<rparr>)) connection_failed
   \<and> getWiFiCredentials demoPlatform connectedService = Inr (''GP12345'', ''pass1234'')
   \<and> failsWith (getWiFiCredentials (demoPlatform\<lparr>ble_read := (\<lambda>c. Inl transportError)\<rparr>)
                  connectedService) connection_failed
   \<and> failsWith (getWiFiCredentials
                  (demoPlatform\<lparr>ble_read := (\<lambda>c. if c = ssidCharacteristic then Inr c
                                                 else Inl transportError)\<rparr>)
                  connectedService) connection_failed"
proof -
  have idle: "connectedDevice scannedService = None"
    by (simp add: scannedService_def initialService_def)
  have bare: "connectedDevice (scannedService\<lparr>connectedDevice := Some demoGoPro\<rparr>) = Some demoGoPro"
    by simp
  have missing: "\<not> hasCharacteristic demoGoPro BLE_CHARACTERISTICS_WIFI_SSID"
    by (simp add: hasCharacteristic_def demoGoPro_def)
  have connected: "connectedDevice connectedService = Some connectedGoPro"
    by (simp add: connectedService_def)
  note ssid = demo_characteristics(1) and password = demo_characteristics(2)
  have reads:
    "ble_read demoPlatform ssidCharacteristic = Inr ssidCharacteristic"
    "ble_read demoPlatform passwordCharacteristic = Inr passwordCharacteristic"
    by (simp_all add: demoPlatform_def)
  have decoded:
    "decodeValue demoPlatform ssidCharacteristic = ''GP12345''"
    "decodeValue demoPlatform passwordCharacteristic = ''pass1234''"
    by (simp_all add: decodeValue_def truthy_def demoPlatform_def ssidCharacteristic_def
          passwordCharacteristic_def)
  have first_throws:
    "ble_read (demoPlatform\<lparr>ble_read := (\<lambda>c. Inl transportError)\<rparr>) ssidCharacteristic
       = Inl transportError"
    by simp
  have second_throws:
    "ble_read (demoPlatform\<lparr>ble_read := (\<lambda>c. if c = ssidCharacteristic then Inr c
                                            else Inl transportError)\<rparr>) ssidCharacteristic
       = Inr ssidCharacteristic"
    "ble_read (demoPlatform\<lparr>ble_read := (\<lambda>c. if c = ssidCharacteristic then Inr c
                                            else Inl transportError)\<rparr>) passwordCharacteristic
       = Inl transportError"
    by (simp_all add: ssidCharacteristic_def passwordCharacteristic_def)
  have "failsWith (getWiFiCredentials demoPlatform scannedService) connection_failed"
    using getWiFiCredentials_outcomes [of scannedService demoPlatform] idle by simp
  moreover have
    "failsWith (getWiFiCredentials demoPlatform
                  (scannedService\<lparr>connectedDevice := Some demoGoPro\<rparr>)) connection_failed"
    using getWiFiCredentials_outcomes
      [of "scannedService\<lparr>connectedDevice := Some demoGoPro\<rparr>" demoPlatform] bare missing
    by simp
  moreover have
    "getWiFiCredentials demoPlatform connectedService = Inr (''GP12345'', ''pass1234'')"
    using getWiFiCredentials_outcomes [of connectedService demoPlatform] connected ssid password
      reads decoded
    by simp
  moreover have
    "failsWith (getWiFiCredentials (demoPlatform\<lparr>ble_read := (\<lambda>c. Inl transportError)\<rparr>)
                  connectedService) connection_failed"
    using getWiFiCredentials_outcomes
      [of connectedService "demoPlatform\<lparr>ble_read := (\<lambda>c. Inl transportError)\<rparr>"]
      connected ssid password first_throws
    by (auto simp: failsWith_def)
  moreover have
    "failsWith (getWiFiCredentials
                  (demoPlatform\<lparr>ble_read := (\<lambda>c. if c = ssidCharacteristic then Inr c
                                                 else Inl transportError)\<rparr>)
                  connectedService) connection_failed"
    using getWiFiCredentials_outcomes
      [of connectedService
        "demoPlatform\<lparr>ble_read := (\<lambda>c. if c = ssidCharacteristic then Inr c
                                       else Inl transportError)\<rparr>"]
      connected ssid password second_throws
    by (auto simp: failsWith_def)
  ultimately show ?thesis by simp
qed

section \<open>Properties of the HTTP camera client\<close>

lemma respondingWith_makeRequest:
  "timeout svc \<ge> 120 \<Longrightarrow> makeRequest (respondingWith payload) svc endpoint options = Inr payload"
  by (simp add: makeRequest_def fetchWithAbort_def respondingWith_def)





text \<open>
  C5, as stated, fails for \<open>getCurrentMode\<close>: a status payload whose mode field is
  present and is the empty string makes it fail with \<open>invalid_response\<close>.
\<close>

theorem getCurrentMode_empty_mode_counterexample:
  "mode (demoStatus\<lparr>mode := Some []\<rparr>) \<noteq> None
   \<and> getCurrentMode (respondingWith (demoStatus\<lparr>mode := Some []\<rparr>)) initialGoProService
     = Inl (createError 2000 invalid_response ''Camera mode not available''
              (Some ''Camera status response missing mode information''))"
proof -
  have fetched:
    "getCameraStatus (respondingWith (demoStatus\<lparr>mode := Some []\<rparr>)) initialGoProService
       = Inr (demoStatus\<lparr>mode := Some []\<rparr>)"
    by (simp add: getCameraStatus_def respondingWith_makeRequest initialGoProService_def
          API_TIMEOUT_def)
  have clock: "clock (respondingWith (demoStatus\<lparr>mode := Some []\<rparr>)) = 2000"
    by (simp add: respondingWith_def)
  show ?thesis
    by (simp add: getCurrentMode_def fetched clock truthy_def)
qed

text \<open>
  C5 (amended): on a status payload that \<open>getCameraStatus\<close> returns,
  \<open>getBatteryLevel\<close> fails with \<open>invalid_response\<close> exactly when the battery_level
  field is absent, \<open>getCurrentMode\<close> fails with \<open>invalid_response\<close> exactly when the
  mode field is absent or is the empty string, and \<open>isRecording\<close> succeeds, with
  \<open>false\<close> when the recording field is absent.
\<close>

theorem derived_reads:
  "getCameraStatus env svc = Inr p \<Longrightarrow>
   (failsWith (getBatteryLevel env svc) invalid_response \<longleftrightarrow> battery_level p = None)
   \<and> (\<forall>b. battery_level p = Some b \<longrightarrow> getBatteryLevel env svc = Inr b)
   \<and> (failsWith (getCurrentMode env svc) invalid_response
        \<longleftrightarrow> mode p = None \<or> mode p = Some [])
   \<and> (\<forall>m. mode p = Some m \<and> m \<noteq> [] \<longrightarrow> getCurrentMode env svc = Inr m)
   \<and> isRecording env svc = Inr (recording p = Some True)"
  by (auto simp: getBatteryLevel_def getCurrentMode_def isRecording_def failsWith_def
        createError_def truthy_def split: option.splits if_splits)

theorem derived_reads_witness:
  "failsWith (getBatteryLevel (respondingWith (demoStatus\<lparr>battery_level := None\<rparr>))
                initialGoProService) invalid_response
   \<and> getBatteryLevel (respondingWith demoStatus) initialGoProService = Inr 87
   \<and> failsWith (getCurrentMode (respondingWith (demoStatus\<lparr>mode := None\<rparr>))
                  initialGoProService) invalid_response
   \<and> getCurrentMode (respondingWith demoStatus) initialGoProService = Inr ''0''
   \<and> isRecording (respondingWith (demoStatus\<lparr>recording := None\<rparr>)) initialGoProService
       = Inr False"
proof -
  have fetched:
    "getCameraStatus (respondingWith q) initialGoProService = Inr q" for q
    by (simp add: getCameraStatus_def respondingWith_makeRequest initialGoProService_def
          API_TIMEOUT_def)
  show ?thesis
    using derived_reads [OF fetched [of "demoStatus\<lparr>battery_level := None\<rparr>"]]
      derived_reads [OF fetched [of demoStatus]]
      derived_reads [OF fetched [of "demoStatus\<lparr>mode := None\<rparr>"]]
      derived_reads [OF fetched [of "demoStatus\<lparr>recording := None\<rparr>"]]
    by (simp add: demoStatus_def)
qed

lemma fetchWithAbort_exceeds:
  "exceeds (network env url init) ms \<Longrightarrow> fetchWithAbort env ms url init = Inl abortError"
  by (auto simp: exceeds_def fetchWithAbort_def split: NetBehaviour.splits)

lemma makeRequest_timeout:
  "requestExceeds env svc endpoint options \<Longrightarrow>
   failsWith (makeRequest env svc endpoint options) api_timeout"
  by (simp add: requestExceeds_def makeRequest_def fetchWithAbort_exceeds failsWith_def
        requestFailed_def abortError_def createError_def)

lemma failsWith_InlD: "failsWith r k \<Longrightarrow> \<exists>e. r = Inl e \<and> err_type e = k"
  by (cases r) (simp_all add: failsWith_def)

lemma silent_exceeds: "requestExceeds silentCamera svc endpoint options"
  by (simp add: requestExceeds_def exceeds_def silentCamera_def)

text \<open>
  C2, as stated, fails for the probe: when the camera does not answer within the probe's
  3000 ms, \<open>pingCamera\<close> resolves with a failure of kind \<open>network_error\<close>, not
  \<open>api_timeout\<close>.
\<close>

theorem pingCamera_timeout_counterexample:
  "exceeds (network (silentCamera :: unit HttpPlatform) (getGoProUrl ENDPOINTS_INFO) pingInit) 3000
   \<and> pingCamera (silentCamera :: unit HttpPlatform)
     = Inl (createError 2000 network_error ''Cannot reach GoPro camera'' (Some ''Aborted''))"
  by (simp add: pingCamera_def fetchWithAbort_def silentCamera_def exceeds_def abortError_def)

text \<open>
  C2 (amended): when the request outlasts the configured timeout, or is never answered,
  \<open>makeRequest\<close> and every operation built on it resolve with a failure of kind
  \<open>api_timeout\<close>; \<open>pingCamera\<close>, whose probe is aborted after a fixed 3000 ms,
  resolves with a failure of kind \<open>network_error\<close>.
\<close>

theorem timeout_reported:
  "(requestExceeds env svc endpoint options \<longrightarrow>
      failsWith (makeRequest env svc endpoint options) api_timeout)
   \<and> (requestExceeds envI svc ENDPOINTS_INFO noOptions \<longrightarrow>
        failsWith (getCameraInfo envI svc) api_timeout)
   \<and> (requestExceeds envS svc ENDPOINTS_STATUS noOptions \<longrightarrow>
        failsWith (getCameraStatus envS svc) api_timeout
        \<and> failsWith (getBatteryLevel envS svc) api_timeout
        \<and> failsWith (isRecording envS svc) api_timeout
        \<and> failsWith (getCurrentMode envS svc) api_timeout)
   \<and> (requestExceeds env svc ENDPOINTS_SHUTTER (postOptions SHUTTER_COMMANDS_START) \<longrightarrow>
        failsWith (startRecording env svc) api_timeout)
   \<and> (requestExceeds env svc ENDPOINTS_SHUTTER (postOptions SHUTTER_COMMANDS_STOP) \<longrightarrow>
        failsWith (stopRecording env svc) api_timeout)
   \<and> (requestExceeds env svc ENDPOINTS_MODE (postOptions m) \<longrightarrow>
        failsWith (setCameraMode env svc m) api_timeout)
   \<and> (requestExceeds envM svc ENDPOINTS_MEDIA_LIST noOptions \<longrightarrow>
        failsWith (getMediaList envM svc) api_timeout
        \<and> failsWith (getMediaFiles envM svc flt) api_timeout)
   \<and> (exceeds (network env (getGoProUrl ENDPOINTS_INFO) pingInit) 3000 \<longrightarrow>
        failsWith (pingCamera env) network_error)"
proof -
  have info: "failsWith (getCameraInfo envI svc) api_timeout"
    if "requestExceeds envI svc ENDPOINTS_INFO noOptions"
    using makeRequest_timeout [OF that] by (simp add: getCameraInfo_def)
  have stat:
    "failsWith (getCameraStatus envS svc) api_timeout
     \<and> failsWith (getBatteryLevel envS svc) api_timeout
     \<and> failsWith (isRecording envS svc) api_timeout
     \<and> failsWith (getCurrentMode envS svc) api_timeout"
    if "requestExceeds envS svc ENDPOINTS_STATUS noOptions"
    using failsWith_InlD [OF makeRequest_timeout [OF that]]
    by (auto simp: getCameraStatus_def getBatteryLevel_def isRecording_def getCurrentMode_def
          failsWith_def)
  have start: "failsWith (startRecording env svc) api_timeout"
    if "requestExceeds env svc ENDPOINTS_SHUTTER (postOptions SHUTTER_COMMANDS_START)"
    using failsWith_InlD [OF makeRequest_timeout [OF that]]
    by (auto simp: startRecording_def failsWith_def)
  have stop: "failsWith (stopRecording env svc) api_timeout"
    if "requestExceeds env svc ENDPOINTS_SHUTTER (postOptions SHUTTER_COMMANDS_STOP)"
    using failsWith_InlD [OF makeRequest_timeout [OF that]]
    by (auto simp: stopRecording_def failsWith_def)
  have setm: "failsWith (setCameraMode env svc m) api_timeout"
    if "requestExceeds env svc ENDPOINTS_MODE (postOptions m)"
    using failsWith_InlD [OF makeRequest_timeout [OF that]]
    by (auto simp: setCameraMode_def failsWith_def)
  have med:
    "failsWith (getMediaList envM svc) api_timeout
     \<and> failsWith (getMediaFiles envM svc flt) api_timeout"
    if "requestExceeds envM svc ENDPOINTS_MEDIA_LIST noOptions"
    using failsWith_InlD [OF makeRequest_timeout [OF that]]
    by (auto simp: getMediaList_def getMediaFiles_def failsWith_def)
  have ping: "failsWith (pingCamera env) network_error"
    if "exceeds (network env (getGoProUrl ENDPOINTS_INFO) pingInit) 3000"
    using fetchWithAbort_exceeds [OF that]
    by (simp add: pingCamera_def failsWith_def createError_def)
  show ?thesis
    using makeRequest_timeout [of env svc endpoint options] info stat start stop setm med ping
    by blast
qed

theorem timeout_reported_witness:
  "failsWith (makeRequest (silentCamera :: unit HttpPlatform) initialGoProService
                ENDPOINTS_INFO noOptions) api_timeout
   \<and> failsWith (getCameraInfo silentCamera initialGoProService) api_timeout
   \<and> failsWith (getCameraStatus silentCamera initialGoProService) api_timeout
   \<and> failsWith (getBatteryLevel silentCamera initialGoProService) api_timeout
   \<and> failsWith (isRecording silentCamera initialGoProService) api_timeout
   \<and> failsWith (getCurrentMode silentCamera initialGoProService) api_timeout
   \<and> failsWith (startRecording (silentCamera :: unit HttpPlatform) initialGoProService) api_timeout
   \<and> failsWith (stopRecording (silentCamera :: unit HttpPlatform) initialGoProService) api_timeout
   \<and> failsWith (setCameraMode (silentCamera :: unit HttpPlatform) initialGoProService ''0'')
        api_timeout
   \<and> failsWith (getMediaList silentCamera initialGoProService) api_timeout
   \<and> failsWith (getMediaFiles silentCamera initialGoProService None) api_timeout
   \<and> failsWith (pingCamera (silentCamera :: unit HttpPlatform)) network_error"
proof -
  have ping:
    "exceeds (network (silentCamera :: unit HttpPlatform) (getGoProUrl ENDPOINTS_INFO) pingInit)
       3000"
    by (simp add: exceeds_def silentCamera_def)
  show ?thesis
    using timeout_reported [of "silentCamera :: unit HttpPlatform" initialGoProService
        ENDPOINTS_INFO noOptions silentCamera silentCamera "''0''" silentCamera None]
      ping
    by (simp add: silent_exceeds)
qed



end
